theory Spec2Isabelle
  imports Main "HOL-Library.Word"
begin

section \<open>Data model\<close>

text \<open>
  Python \<open>bytes\<close> are lists of 8-bit words, Python \<open>int\<close> is \<open>int\<close>. The path of
  \<open>derive\<close> is ASCII text and is a \<open>string\<close>; the mnemonic and the passphrase are
  Python \<open>str\<close> values, that is sequences of Unicode code points, kept as \<open>nat list\<close>.
\<close>

type_synonym byte = "8 word"
type_synonym bytes = "byte list"
type_synonym ustr = "nat list"

text \<open>
  The exceptions the modelled code can raise. \<open>ValueError\<close> is the SDK's own exception
  (\<open>stellar_sdk.exceptions.ValueError\<close>) with its message; the others are raised by
  the Python built-ins the code calls: \<open>int\<close> on text that is no integer literal,
  \<open>struct.pack\<close> on a value outside the format's range, \<open>str.encode\<close> on a lone
  surrogate, \<open>next\<close> on an exhausted iterator, \<open>json.loads\<close> on malformed text,
  \<open>os.urandom\<close> on a negative size.
\<close>

datatype error =
    ValueError string
  | IntLiteralError string
  | StructError
  | UnicodeEncodeError nat
  | StopIteration
  | JSONDecodeError string
  | NegativeSizeError

text \<open>
  Calls to the collaborators outside the repository are recorded in the order they are
  made. The world also holds the operating system's entropy as an infinite tape of bytes
  and the number of bytes already drawn from it.
\<close>

datatype call =
    HmacSha512 bytes bytes
  | Pbkdf2HmacSha512 bytes bytes int
  | Urandom int

record world =
  calls :: "call list"
  entropy :: "nat \<Rightarrow> byte"
  drawn :: nat

section \<open>Python built-ins used by the code\<close>

subsection \<open>Decimal formatting: the \<open>%d\<close> conversion\<close>

definition digit_char :: "nat \<Rightarrow> char" where
  "digit_char d = ''0123456789'' ! d"

function dec_digits :: "nat \<Rightarrow> string" where
  "dec_digits n =
     (if n < 10 then [digit_char n] else dec_digits (n div 10) @ [digit_char (n mod 10)])"
  by pat_completeness auto
termination
  by (relation "measure id") auto

declare dec_digits.simps [simp del]

definition str_of_int :: "int \<Rightarrow> string" where
  "str_of_int i = (if i < 0 then CHR ''-'' # dec_digits (nat (- i)) else dec_digits (nat i))"

text \<open>\<open>fmt % i\<close> for a format with one \<open>%d\<close> conversion and an integer argument.\<close>

fun format_d :: "string \<Rightarrow> int \<Rightarrow> string" where
  "format_d (a # b # r) i =
     (if a = CHR ''%'' \<and> b = CHR ''d'' then str_of_int i @ r else a # format_d (b # r) i)"
| "format_d r i = r"

subsection \<open>\<open>int(text)\<close>\<close>

text \<open>
  The texts \<open>derive\<close> converts are path segments written by \<open>%d\<close>: an optional sign
  and decimal digits. On any other text the conversion raises, as \<open>int\<close> does on text that
  is no integer literal (the surrounding blanks and the underscores that \<open>int\<close> also accepts
  never occur in a segment).
\<close>

definition is_digit :: "char \<Rightarrow> bool" where
  "is_digit c = (48 \<le> (of_char c :: nat) \<and> (of_char c :: nat) \<le> 57)"

definition digit_val :: "char \<Rightarrow> nat" where
  "digit_val c = of_char c - 48"

definition nat_of_digits :: "string \<Rightarrow> nat" where
  "nat_of_digits s = foldl (\<lambda>a c. 10 * a + digit_val c) 0 s"

definition unsigned_literal :: "string \<Rightarrow> bool" where
  "unsigned_literal s = (s \<noteq> [] \<and> list_all is_digit s)"

fun python_int :: "string \<Rightarrow> error + int" where
  "python_int [] = Inl (IntLiteralError [])"
| "python_int (c # r) =
     (if c = CHR ''-'' then
        (if unsigned_literal r then Inr (- int (nat_of_digits r))
         else Inl (IntLiteralError (c # r)))
      else if c = CHR ''+'' then
        (if unsigned_literal r then Inr (int (nat_of_digits r))
         else Inl (IntLiteralError (c # r)))
      else if unsigned_literal (c # r) then Inr (int (nat_of_digits (c # r)))
      else Inl (IntLiteralError (c # r)))"

subsection \<open>\<open>str.split(sep)\<close> with a one-character separator\<close>

fun split_str :: "char \<Rightarrow> string \<Rightarrow> string list" where
  "split_str sep [] = [[]]"
| "split_str sep (c # cs) =
     (if c = sep then [] # split_str sep cs
      else (case split_str sep cs of
              [] \<Rightarrow> [[c]]
            | y # ys \<Rightarrow> (c # y) # ys))"

subsection \<open>\<open>struct.pack\<close>\<close>

text \<open>
  \<open>struct.pack(">I", v)\<close>: four bytes, most significant first; the call raises
  \<open>struct.error\<close> when \<open>v\<close> is negative or needs more than 32 bits.
  \<open>struct.pack("x")\<close> is one zero byte.
\<close>

definition struct_pack_I :: "int \<Rightarrow> error + bytes" where
  "struct_pack_I v =
     (if 0 \<le> v \<and> v < 2 ^ 32
      then Inr [word_of_int (v div 2 ^ 24), word_of_int (v div 2 ^ 16),
                word_of_int (v div 2 ^ 8), word_of_int v]
      else Inl StructError)"

definition struct_pack_x :: bytes where
  "struct_pack_x = [0]"

definition ascii_bytes :: "string \<Rightarrow> bytes" where
  "ascii_bytes s = map (\<lambda>c. of_nat (of_char c)) s"

section \<open>\<open>StellarMnemonic\<close> (\<open>stellar_sdk/sep/mnemonic.py\<close>)\<close>

definition apostrophe :: char where
  "apostrophe = CHR 0x27"

definition STELLAR_ACCOUNT_PATH_FORMAT :: string where
  "STELLAR_ACCOUNT_PATH_FORMAT =
     ''m/44'' @ [apostrophe] @ ''/148'' @ [apostrophe] @ ''/%d'' @ [apostrophe]"

definition FIRST_HARDENED_INDEX :: int where
  "FIRST_HARDENED_INDEX = 0x80000000"

definition SEED_MODIFIER :: bytes where
  "SEED_MODIFIER = ascii_bytes ''ed25519 seed''"

text \<open>
  HMAC-SHA512 comes from Python's \<open>hmac\<close> and \<open>hashlib\<close> modules, which are not part of
  the repository: every function that uses it takes it as the parameter \<open>H\<close> (key first,
  then message). \<open>hmac_digest\<close> is one \<open>hmac.new(key, digestmod=sha512)\<close>,
  \<open>update(msg)\<close>, \<open>digest()\<close> sequence; it records the call.
\<close>

definition hmac_digest ::
  "(bytes \<Rightarrow> bytes \<Rightarrow> bytes) \<Rightarrow> bytes \<Rightarrow> bytes \<Rightarrow> world \<Rightarrow> bytes \<times> world" where
  "hmac_digest H k m w = (H k m, w\<lparr>calls := calls w @ [HmacSha512 k m]\<rparr>)"

text \<open>The body of the \<open>for x in path.split("/")[1:]\<close> loop of \<open>derive\<close>, and the loop.\<close>

fun derive_loop ::
  "(bytes \<Rightarrow> bytes \<Rightarrow> bytes) \<Rightarrow> string list \<Rightarrow> bytes \<Rightarrow> bytes \<Rightarrow> world
     \<Rightarrow> (error + bytes) \<times> world" where
  "derive_loop H [] il ir w = (Inr il, w)"
| "derive_loop H (x # xs) il ir w =
     (case python_int (butlast x) of
        Inl e \<Rightarrow> (Inl e, w)
      | Inr n \<Rightarrow>
          (case struct_pack_I (FIRST_HARDENED_INDEX + n) of
             Inl e \<Rightarrow> (Inl e, w)
           | Inr p \<Rightarrow>
               (case hmac_digest H ir (struct_pack_x @ il @ p) w of
                  (i, w') \<Rightarrow> derive_loop H xs (take 32 i) (drop 32 i) w')))"

definition derive ::
  "(bytes \<Rightarrow> bytes \<Rightarrow> bytes) \<Rightarrow> bytes \<Rightarrow> int \<Rightarrow> world \<Rightarrow> (error + bytes) \<times> world" where
  "derive H seed index w =
     (case hmac_digest H SEED_MODIFIER seed w of
        (master, w') \<Rightarrow>
          derive_loop H (tl (split_str CHR ''/'' (format_d STELLAR_ACCOUNT_PATH_FORMAT index)))
            (take 32 master) (drop 32 master) w')"

subsection \<open>\<open>to_seed\<close>\<close>

text \<open>\<open>str.encode("utf-8")\<close>: it raises on a lone surrogate code point.\<close>

definition utf8_char :: "nat \<Rightarrow> error + bytes" where
  "utf8_char c =
     (if c < 0x80 then Inr [of_nat c]
      else if c < 0x800 then Inr [of_nat (0xC0 + c div 64), of_nat (0x80 + c mod 64)]
      else if c < 0x10000 then
        (if 0xD800 \<le> c \<and> c \<le> 0xDFFF then Inl (UnicodeEncodeError c)
         else Inr [of_nat (0xE0 + c div 4096), of_nat (0x80 + c div 64 mod 64),
                   of_nat (0x80 + c mod 64)])
      else if c < 0x110000 then
        Inr [of_nat (0xF0 + c div 262144), of_nat (0x80 + c div 4096 mod 64),
             of_nat (0x80 + c div 64 mod 64), of_nat (0x80 + c mod 64)]
      else Inl (UnicodeEncodeError c))"

fun encode_utf8 :: "ustr \<Rightarrow> error + bytes" where
  "encode_utf8 [] = Inr []"
| "encode_utf8 (c # cs) =
     (case utf8_char c of
        Inl e \<Rightarrow> Inl e
      | Inr b \<Rightarrow> (case encode_utf8 cs of Inl e \<Rightarrow> Inl e | Inr bs \<Rightarrow> Inr (b @ bs)))"

definition ustr_of :: "string \<Rightarrow> ustr" where
  "ustr_of s = map of_char s"

text \<open>
  Modelled from the spec: the constant \<open>PBKDF2_ROUNDS\<close> is imported from the external
  \<open>mnemonic\<close> package; the spec gives the standard's iteration count, 2048.
\<close>

definition PBKDF2_ROUNDS :: int where
  "PBKDF2_ROUNDS = 2048"

text \<open>
  \<open>hashlib.pbkdf2_hmac("sha512", password, salt, rounds)\<close> is the parameter \<open>P\<close>; with
  no \<open>dklen\<close> argument the derived key has the digest's length. \<open>normalize_string\<close> is
  inherited from the external \<open>Mnemonic\<close> class (Unicode NFKD) and is the parameter \<open>N\<close>.
\<close>

definition pbkdf2_hmac ::
  "(bytes \<Rightarrow> bytes \<Rightarrow> int \<Rightarrow> bytes) \<Rightarrow> bytes \<Rightarrow> bytes \<Rightarrow> int \<Rightarrow> world \<Rightarrow> bytes \<times> world" where
  "pbkdf2_hmac P password salt rounds w =
     (P password salt rounds, w\<lparr>calls := calls w @ [Pbkdf2HmacSha512 password salt rounds]\<rparr>)"

definition to_seed ::
  "(ustr \<Rightarrow> ustr) \<Rightarrow> (bytes \<Rightarrow> bytes \<Rightarrow> int \<Rightarrow> bytes) \<Rightarrow> (bytes \<Rightarrow> bytes \<Rightarrow> bytes)
     \<Rightarrow> ustr \<Rightarrow> ustr \<Rightarrow> int \<Rightarrow> world \<Rightarrow> (error + bytes) \<times> world" where
  "to_seed N P H mnemonic passphrase index w =
     (let mnemonic1 = N mnemonic;
          passphrase1 = N passphrase;
          passphrase2 = ustr_of ''mnemonic'' @ passphrase1
      in case encode_utf8 mnemonic1 of
           Inl e \<Rightarrow> (Inl e, w)
         | Inr mnemonic2 \<Rightarrow>
             (case encode_utf8 passphrase2 of
                Inl e \<Rightarrow> (Inl e, w)
              | Inr passphrase3 \<Rightarrow>
                  (case pbkdf2_hmac P mnemonic2 passphrase3 PBKDF2_ROUNDS w of
                     (stretched, w') \<Rightarrow> derive H (take 64 stretched) index w')))"

subsection \<open>The constructor\<close>

datatype Language =
    JAPANESE | FRENCH | ENGLISH | SPANISH | ITALIAN | KOREAN
  | CHINESE_SIMPLIFIED | CHINESE_TRADITIONAL

fun language_value :: "Language \<Rightarrow> string" where
  "language_value JAPANESE = ''japanese''"
| "language_value FRENCH = ''french''"
| "language_value ENGLISH = ''english''"
| "language_value SPANISH = ''spanish''"
| "language_value ITALIAN = ''italian''"
| "language_value KOREAN = ''korean''"
| "language_value CHINESE_SIMPLIFIED = ''chinese_simplified''"
| "language_value CHINESE_TRADITIONAL = ''chinese_traditional''"

definition Language_members :: "Language list" where
  "Language_members =
     [JAPANESE, FRENCH, ENGLISH, SPANISH, ITALIAN, KOREAN, CHINESE_SIMPLIFIED,
      CHINESE_TRADITIONAL]"

text \<open>The argument's type is \<open>Union[str, Language]\<close>.\<close>

datatype language_arg = Member Language | Text string

text \<open>
  An instance keeps the language name handed to the parent constructor
  \<open>Mnemonic.__init__\<close>, which belongs to the external \<open>mnemonic\<close> package and loads the
  word list of that name.
\<close>

record stellar_mnemonic =
  wordlist_language :: string

definition super_init :: "string \<Rightarrow> world \<Rightarrow> (error + stellar_mnemonic) \<times> world" where
  "super_init lang w = (Inr \<lparr>wordlist_language = lang\<rparr>, w)"

definition init :: "language_arg \<Rightarrow> world \<Rightarrow> (error + stellar_mnemonic) \<times> world" where
  "init arg w =
     (case arg of
        Member l \<Rightarrow> super_init (language_value l) w
      | Text s \<Rightarrow>
          (if s \<notin> set (map language_value Language_members)
           then (Inl (ValueError ''This language is not supported.''), w)
           else super_init s w))"

subsection \<open>\<open>generate\<close>\<close>

text \<open>
  \<open>os.urandom(n)\<close> takes the next \<open>n\<close> bytes of the entropy tape. \<open>to_mnemonic\<close> is
  inherited from the external \<open>Mnemonic\<close> class: it is the parameter \<open>T\<close>, from the
  instance and the entropy to the phrase.
\<close>

definition os_urandom :: "int \<Rightarrow> world \<Rightarrow> (error + bytes) \<times> world" where
  "os_urandom n w =
     (if n < 0 then (Inl NegativeSizeError, w)
      else (Inr (map (entropy w) [drawn w ..< drawn w + nat n]),
            w\<lparr>calls := calls w @ [Urandom n], drawn := drawn w + nat n\<rparr>))"

definition strength_message :: string where
  "strength_message =
     ''Strength should be one of the following [128, 160, 192, 224, 256], but it is not (%d).''"

definition generate ::
  "(stellar_mnemonic \<Rightarrow> bytes \<Rightarrow> ustr) \<Rightarrow> stellar_mnemonic \<Rightarrow> int \<Rightarrow> world
     \<Rightarrow> (error + ustr) \<times> world" where
  "generate T self strength w =
     (if strength \<notin> set [128, 160, 192, 224, 256]
      then (Inl (ValueError (format_d strength_message strength)), w)
      else (case os_urandom (strength div 8) w of
              (Inl e, w') \<Rightarrow> (Inl e, w')
            | (Inr e, w') \<Rightarrow> (Inr (T self e), w')))"

section \<open>\<open>RequestsClient.stream\<close> (\<open>stellar_sdk/client/requests_client.py\<close>)\<close>

text \<open>
  The external \<open>SSEClient\<close> is an iterator of events; the events it will deliver are a
  list, and \<open>next\<close> on the exhausted iterator raises \<open>StopIteration\<close>. \<open>json.loads\<close>
  is the parameter \<open>J\<close>.
\<close>

record sse_event =
  event_data :: string

definition hello_sentinel :: string where
  "hello_sentinel = [CHR 0x22] @ ''hello'' @ [CHR 0x22]"

definition byebye_sentinel :: string where
  "byebye_sentinel = [CHR 0x22] @ ''byebye'' @ [CHR 0x22]"

text \<open>\<open>_SSEClient.__next__\<close>: the result and the events left in the client.\<close>

fun SSEClient_next ::
  "(string \<Rightarrow> error + 'j) \<Rightarrow> sse_event list \<Rightarrow> (error + 'j) \<times> sse_event list" where
  "SSEClient_next J [] = (Inl StopIteration, [])"
| "SSEClient_next J (msg # rest) =
     (let data = event_data msg
      in if data \<noteq> hello_sentinel \<and> data \<noteq> byebye_sentinel then (J data, rest)
         else SSEClient_next J rest)"

text \<open>
  The generator \<open>stream\<close>: the values it yields, and the exception that ends it
  (\<open>None\<close> when the iterator is exhausted and the generator returns).
\<close>

function stream ::
  "(string \<Rightarrow> error + 'j) \<Rightarrow> sse_event list \<Rightarrow> 'j list \<times> error option" where
  "stream J evs =
     (case SSEClient_next J evs of
        (Inl e, rest) \<Rightarrow> ([], if e = StopIteration then None else Some e)
      | (Inr message, rest) \<Rightarrow>
          (case stream J rest of (ys, r) \<Rightarrow> (message # ys, r)))"
  by pat_completeness auto
termination
proof -
  have shorter: "length rest < length evs"
    if "SSEClient_next J evs = (Inr v, rest)" for J evs rest and v :: 'j
    using that by (induction evs) (auto simp: Let_def split: if_splits)
  show ?thesis
    by (relation "measure (\<lambda>(J, evs). length evs)") (auto dest: shorter [OF sym])
qed

declare stream.simps [simp del]

section \<open>The reference derivation\<close>

text \<open>
  The hardened-only derivation as the specification words it: the master step splits
  HMAC-SHA512 of the seed under the key \<open>ed25519 seed\<close> into two halves of 32 bytes;
  each of the segments 44, 148 and the account index replaces the pair by the halves of
  HMAC-SHA512 under the key \<open>ir\<close> of the 37 bytes \<open>0x00 || il || be32(2^31 + segment)\<close>.
\<close>

definition split_digest :: "bytes \<Rightarrow> bytes \<times> bytes" where
  "split_digest d = (take 32 d, drop 32 d)"

definition be32 :: "32 word \<Rightarrow> bytes" where
  "be32 v = [ucast (drop_bit 24 v), ucast (drop_bit 16 v), ucast (drop_bit 8 v), ucast v]"

definition slip10_master :: "(bytes \<Rightarrow> bytes \<Rightarrow> bytes) \<Rightarrow> bytes \<Rightarrow> bytes \<times> bytes" where
  "slip10_master H seed = split_digest (H (ascii_bytes ''ed25519 seed'') seed)"

definition hardened_child ::
  "(bytes \<Rightarrow> bytes \<Rightarrow> bytes) \<Rightarrow> bytes \<times> bytes \<Rightarrow> int \<Rightarrow> bytes \<times> bytes" where
  "hardened_child H ck segment =
     split_digest (H (snd ck) ([0] @ fst ck @ be32 (word_of_int (2 ^ 31 + segment))))"

definition slip10_reference :: "(bytes \<Rightarrow> bytes \<Rightarrow> bytes) \<Rightarrow> bytes \<Rightarrow> int \<Rightarrow> bytes" where
  "slip10_reference H seed index =
     fst (foldl (hardened_child H) (split_digest (H (ascii_bytes ''ed25519 seed'') seed))
            [44, 148, index])"

text \<open>The HMAC calls of the master step and of a child step, as they appear in the record.\<close>

definition master_call :: "bytes \<Rightarrow> call" where
  "master_call seed = HmacSha512 (ascii_bytes ''ed25519 seed'') seed"

definition child_call :: "bytes \<times> bytes \<Rightarrow> int \<Rightarrow> call" where
  "child_call ck segment =
     HmacSha512 (snd ck) ([0] @ fst ck @ be32 (word_of_int (2 ^ 31 + segment)))"

text \<open>The language selectors the specification accepts: a member, or a member's name.\<close>

definition supported_language :: "language_arg \<Rightarrow> bool" where
  "supported_language arg =
     (case arg of
        Member l \<Rightarrow> True
      | Text s \<Rightarrow>
          s \<in> {''japanese'', ''french'', ''english'', ''spanish'', ''italian'', ''korean'',
               ''chinese_simplified'', ''chinese_traditional''})"

definition keep_alive :: "sse_event \<Rightarrow> bool" where
  "keep_alive msg = (event_data msg = hello_sentinel \<or> event_data msg = byebye_sentinel)"

section \<open>Sample collaborators\<close>

text \<open>
  Small stand-ins for the external primitives, with the output lengths of the real ones,
  on which the theorems below are exercised at concrete inputs.
\<close>

definition sample_prf :: "bytes \<Rightarrow> bytes \<Rightarrow> bytes" where
  "sample_prf k m = take 64 (m @ k @ replicate 64 0)"

definition sample_kdf :: "bytes \<Rightarrow> bytes \<Rightarrow> int \<Rightarrow> bytes" where
  "sample_kdf password salt rounds = take 64 (salt @ password @ replicate 64 1)"

definition sample_normalize :: "ustr \<Rightarrow> ustr" where
  "sample_normalize s = s"

definition sample_phrase :: "stellar_mnemonic \<Rightarrow> bytes \<Rightarrow> ustr" where
  "sample_phrase self e = map unat e"

definition sample_json :: "string \<Rightarrow> error + string" where
  "sample_json s = (if s = [] then Inl (JSONDecodeError s) else Inr s)"

definition sample_world :: world where
  "sample_world = \<lparr>calls = [], entropy = (\<lambda>n. of_nat n), drawn = 0\<rparr>"

definition sample_world2 :: world where
  "sample_world2 = \<lparr>calls = [Urandom 16], entropy = (\<lambda>n. 255), drawn = 16\<rparr>"

definition sample_seed :: bytes where
  "sample_seed = replicate 64 1"

section \<open>Decimal text and path segments\<close>

lemma digit_cases: "d < 10 \<Longrightarrow> d \<in> {0, 1, 2, 3, 4, 5, 6, 7, 8, 9::nat}"
  by auto

lemma digit_char_is_digit: "d < 10 \<Longrightarrow> is_digit (digit_char d)"
  by (drule digit_cases) (auto simp: digit_char_def is_digit_def)

lemma digit_val_digit_char: "d < 10 \<Longrightarrow> digit_val (digit_char d) = d"
  by (drule digit_cases) (auto simp: digit_char_def digit_val_def)

lemma is_digit_not_special:
  "is_digit c \<Longrightarrow> c \<noteq> CHR ''-'' \<and> c \<noteq> CHR ''+'' \<and> c \<noteq> CHR ''/''"
  by (auto simp: is_digit_def)

lemma dec_digits_all: "list_all is_digit (dec_digits n)"
proof (induction n rule: dec_digits.induct)
  case (1 n)
  show ?case
  proof (cases "n < 10")
    case True
    then show ?thesis by (subst dec_digits.simps) (simp add: digit_char_is_digit)
  next
    case False
    with 1 show ?thesis by (subst dec_digits.simps) (simp add: digit_char_is_digit)
  qed
qed

lemma dec_digits_nonempty: "dec_digits n \<noteq> []"
  by (subst dec_digits.simps) simp

lemma nat_of_digits_snoc: "nat_of_digits (s @ [c]) = 10 * nat_of_digits s + digit_val c"
  by (simp add: nat_of_digits_def)

lemma nat_of_dec_digits: "nat_of_digits (dec_digits n) = n"
proof (induction n rule: dec_digits.induct)
  case (1 n)
  show ?case
  proof (cases "n < 10")
    case True
    then show ?thesis
      by (subst dec_digits.simps) (simp add: nat_of_digits_def digit_val_digit_char)
  next
    case False
    with 1 show ?thesis
      by (subst dec_digits.simps) (simp add: nat_of_digits_snoc digit_val_digit_char)
  qed
qed

lemma unsigned_literal_dec_digits: "unsigned_literal (dec_digits n)"
  by (simp add: unsigned_literal_def dec_digits_all dec_digits_nonempty)

lemma python_int_dec_digits: "python_int (dec_digits n) = Inr (int n)"
proof (cases "dec_digits n")
  case Nil
  then show ?thesis using dec_digits_nonempty [of n] by simp
next
  case (Cons c r)
  have "is_digit c" using dec_digits_all [of n] Cons by simp
  then have "c \<noteq> CHR ''-''" "c \<noteq> CHR ''+''" using is_digit_not_special by blast+
  moreover have "unsigned_literal (c # r)" "nat_of_digits (c # r) = n"
    using unsigned_literal_dec_digits [of n] nat_of_dec_digits [of n] Cons by simp_all
  ultimately show ?thesis using Cons by simp
qed

lemma python_int_str_of_int: "python_int (str_of_int i) = Inr i"
  by (simp add: str_of_int_def python_int_dec_digits unsigned_literal_dec_digits nat_of_dec_digits)

lemma slash_notin_str_of_int: "CHR ''/'' \<notin> set (str_of_int i)"
proof -
  have "CHR ''/'' \<notin> set (dec_digits n)" for n
    using dec_digits_all [of n] is_digit_not_special by (auto simp: list_all_iff)
  then show ?thesis by (simp add: str_of_int_def)
qed

lemma split_str_no_sep: "sep \<notin> set s \<Longrightarrow> split_str sep s = [s]"
  by (induction s) auto

lemma path_segments:
  "tl (split_str CHR ''/'' (format_d STELLAR_ACCOUNT_PATH_FORMAT index)) =
     [''44'' @ [apostrophe], ''148'' @ [apostrophe], str_of_int index @ [apostrophe]]"
proof -
  have "split_str CHR ''/'' (str_of_int index @ [apostrophe]) = [str_of_int index @ [apostrophe]]"
    by (rule split_str_no_sep) (simp add: slash_notin_str_of_int apostrophe_def)
  then show ?thesis
    by (simp add: STELLAR_ACCOUNT_PATH_FORMAT_def apostrophe_def)
qed

lemma python_int_44: "python_int ''44'' = Inr 44"
  by (simp add: unsigned_literal_def is_digit_def nat_of_digits_def digit_val_def)

lemma python_int_148: "python_int ''148'' = Inr 148"
  by (simp add: unsigned_literal_def is_digit_def nat_of_digits_def digit_val_def)

lemma ucast_drop_bit_word_of_int:
  "k \<le> 24 \<Longrightarrow> (ucast (drop_bit k (word_of_int v :: 32 word)) :: 8 word) = word_of_int (v div 2 ^ k)"
  by (intro bit_word_eqI) (auto simp: bit_simps simp flip: drop_bit_eq_div)

lemma ucast_word_of_int_32_8: "(ucast (word_of_int v :: 32 word) :: 8 word) = word_of_int v"
  by (intro bit_word_eqI) (auto simp: bit_simps)

lemma struct_pack_I_be32:
  "0 \<le> v \<Longrightarrow> v < 2 ^ 32 \<Longrightarrow> struct_pack_I v = Inr (be32 (word_of_int v))"
  by (simp add: struct_pack_I_def be32_def ucast_drop_bit_word_of_int ucast_word_of_int_32_8)

lemma derive_loop_step:
  assumes "python_int (butlast x) = Inr n" and "struct_pack_I (FIRST_HARDENED_INDEX + n) = Inr p"
  shows "derive_loop H (x # xs) il ir w =
           derive_loop H xs (take 32 (H ir ([0] @ il @ p))) (drop 32 (H ir ([0] @ il @ p)))
             (w\<lparr>calls := calls w @ [HmacSha512 ir ([0] @ il @ p)]\<rparr>)"
  using assms by (simp add: hmac_digest_def struct_pack_x_def)

lemma derive_loop_pack_fails:
  assumes "python_int (butlast x) = Inr n" and "struct_pack_I (FIRST_HARDENED_INDEX + n) = Inl e"
  shows "derive_loop H (x # xs) il ir w = (Inl e, w)"
  using assms by simp

section \<open>The derivation loop\<close>

lemma seg44: "python_int (butlast (''44'' @ [apostrophe])) = Inr 44"
  using python_int_44 by simp

lemma seg148: "python_int (butlast (''148'' @ [apostrophe])) = Inr 148"
  using python_int_148 by simp

lemma seg_index: "python_int (butlast (str_of_int index @ [apostrophe])) = Inr index"
  by (simp add: python_int_str_of_int)

lemma pack_hardened:
  "- (2 ^ 31) \<le> n \<Longrightarrow> n < 2 ^ 31 \<Longrightarrow>
     struct_pack_I (FIRST_HARDENED_INDEX + n) = Inr (be32 (word_of_int (2 ^ 31 + n)))"
  by (simp add: FIRST_HARDENED_INDEX_def struct_pack_I_be32)

lemma pack_out_of_range:
  "n < - (2 ^ 31) \<or> 2 ^ 31 \<le> n \<Longrightarrow> struct_pack_I (FIRST_HARDENED_INDEX + n) = Inl StructError"
  by (auto simp: FIRST_HARDENED_INDEX_def struct_pack_I_def)

lemma derive_loop_child:
  assumes "python_int (butlast x) = Inr n" and "- (2 ^ 31) \<le> n" and "n < 2 ^ 31"
  shows "derive_loop H (x # xs) (fst ck) (snd ck) w =
           derive_loop H xs (fst (hardened_child H ck n)) (snd (hardened_child H ck n))
             (w\<lparr>calls := calls w @ [child_call ck n]\<rparr>)"
  using derive_loop_step [OF assms(1) pack_hardened [OF assms(2,3)]]
  by (simp add: hardened_child_def split_digest_def child_call_def)

lemma derive_loop_reject:
  assumes "python_int (butlast x) = Inr n" and "n < - (2 ^ 31) \<or> 2 ^ 31 \<le> n"
  shows "derive_loop H (x # xs) il ir w = (Inl StructError, w)"
  using derive_loop_pack_fails [OF assms(1) pack_out_of_range [OF assms(2)]] .

lemma derive_start:
  "derive H seed index w =
     derive_loop H [''44'' @ [apostrophe], ''148'' @ [apostrophe], str_of_int index @ [apostrophe]]
       (fst (slip10_master H seed)) (snd (slip10_master H seed))
       (w\<lparr>calls := calls w @ [master_call seed]\<rparr>)"
  by (simp only: derive_def hmac_digest_def path_segments prod.case SEED_MODIFIER_def
        slip10_master_def split_digest_def fst_conv snd_conv master_call_def)

lemma derive_two_children:
  "derive H seed index w =
     derive_loop H [str_of_int index @ [apostrophe]]
       (fst (hardened_child H (hardened_child H (slip10_master H seed) 44) 148))
       (snd (hardened_child H (hardened_child H (slip10_master H seed) 44) 148))
       (w\<lparr>calls := calls w @ [master_call seed, child_call (slip10_master H seed) 44,
            child_call (hardened_child H (slip10_master H seed) 44) 148]\<rparr>)"
proof -
  let ?ck0 = "slip10_master H seed"
  let ?ck1 = "hardened_child H ?ck0 44"
  let ?ck2 = "hardened_child H ?ck1 148"
  let ?w0 = "w\<lparr>calls := calls w @ [master_call seed]\<rparr>"
  let ?w1 = "?w0\<lparr>calls := calls ?w0 @ [child_call ?ck0 44]\<rparr>"
  let ?w2 = "?w1\<lparr>calls := calls ?w1 @ [child_call ?ck1 148]\<rparr>"
  let ?last = "str_of_int index @ [apostrophe]"
  have "derive H seed index w =
          derive_loop H [''44'' @ [apostrophe], ''148'' @ [apostrophe], ?last]
            (fst ?ck0) (snd ?ck0) ?w0"
    by (rule derive_start)
  also have "\<dots> = derive_loop H [''148'' @ [apostrophe], ?last] (fst ?ck1) (snd ?ck1) ?w1"
    by (rule derive_loop_child [OF seg44]) simp_all
  also have "\<dots> = derive_loop H [?last] (fst ?ck2) (snd ?ck2) ?w2"
    by (rule derive_loop_child [OF seg148]) simp_all
  finally show ?thesis
    by (simp del: derive_loop.simps)
qed

lemma derive_in_range:
  assumes "- (2 ^ 31) \<le> index" and "index < 2 ^ 31"
  shows "derive H seed index w =
     (Inr (slip10_reference H seed index),
      w\<lparr>calls := calls w @ [master_call seed, child_call (slip10_master H seed) 44,
            child_call (hardened_child H (slip10_master H seed) 44) 148,
            child_call (hardened_child H (hardened_child H (slip10_master H seed) 44) 148) index]\<rparr>)"
proof -
  let ?ck2 = "hardened_child H (hardened_child H (slip10_master H seed) 44) 148"
  have "derive_loop H [str_of_int index @ [apostrophe]] (fst ?ck2) (snd ?ck2) v =
          derive_loop H [] (fst (hardened_child H ?ck2 index)) (snd (hardened_child H ?ck2 index))
            (v\<lparr>calls := calls v @ [child_call ?ck2 index]\<rparr>)" for v
    by (rule derive_loop_child [OF seg_index assms])
  then show ?thesis
    by (simp add: derive_two_children slip10_reference_def slip10_master_def
          del: derive_loop.simps(2))
qed

lemma derive_out_of_range:
  assumes "index < - (2 ^ 31) \<or> 2 ^ 31 \<le> index"
  shows "derive H seed index w =
     (Inl StructError,
      w\<lparr>calls := calls w @ [master_call seed, child_call (slip10_master H seed) 44,
            child_call (hardened_child H (slip10_master H seed) 44) 148]\<rparr>)"
proof -
  have "derive_loop H [str_of_int index @ [apostrophe]] il ir v = (Inl StructError, v)"
    for il ir v
    by (rule derive_loop_reject [OF seg_index assms])
  then show ?thesis
    by (simp add: derive_two_children del: derive_loop.simps(2))
qed

lemma length_slip10_reference:
  assumes "\<forall>k m. length (H k m) = 64"
  shows "length (slip10_reference H seed index) = 32"
  using assms by (simp add: slip10_reference_def hardened_child_def split_digest_def)

lemma sample_prf_length: "length (sample_prf k m) = 64"
  by (auto simp: sample_prf_def)

lemma uint_word_of_int_32: "0 \<le> v \<Longrightarrow> v < 2 ^ 32 \<Longrightarrow> uint (word_of_int v :: 32 word) = v"
  by (simp add: uint_word_of_int_eq take_bit_int_eq_self)

section \<open>Seed stretching\<close>

lemma sample_kdf_length: "length (sample_kdf p s r) = 64"
  by (auto simp: sample_kdf_def)

lemma to_seed_encoded:
  assumes "encode_utf8 (N mnemonic) = Inr password"
    and "encode_utf8 (ustr_of ''mnemonic'' @ N passphrase) = Inr salt"
  shows "to_seed N P H mnemonic passphrase index w =
           derive H (take 64 (P password salt 2048)) index
             (w\<lparr>calls := calls w @ [Pbkdf2HmacSha512 password salt 2048]\<rparr>)"
  using assms by (simp add: to_seed_def pbkdf2_hmac_def PBKDF2_ROUNDS_def)

lemma fst_derive_world: "fst (derive H seed index w1) = fst (derive H seed index w2)"
proof (cases "- (2 ^ 31) \<le> index \<and> index < 2 ^ 31")
  case True
  then show ?thesis using derive_in_range [of index H seed] by simp
next
  case False
  then have "index < - (2 ^ 31) \<or> 2 ^ 31 \<le> index" by auto
  then show ?thesis using derive_out_of_range [of index H seed] by simp
qed

lemma derive_keeps_entropy:
  "entropy (snd (derive H seed index w)) = entropy w \<and> drawn (snd (derive H seed index w)) = drawn w"
proof (cases "- (2 ^ 31) \<le> index \<and> index < 2 ^ 31")
  case True
  then show ?thesis using derive_in_range [of index H seed w] by simp
next
  case False
  then have "index < - (2 ^ 31) \<or> 2 ^ 31 \<le> index" by auto
  then show ?thesis using derive_out_of_range [of index H seed w] by simp
qed

lemma derive_error_is_struct: "fst (derive H seed index w) = Inl e \<Longrightarrow> e = StructError"
proof (cases "- (2 ^ 31) \<le> index \<and> index < 2 ^ 31")
  case True
  moreover assume "fst (derive H seed index w) = Inl e"
  ultimately show ?thesis using derive_in_range [of index H seed w] by simp
next
  case False
  then have "index < - (2 ^ 31) \<or> 2 ^ 31 \<le> index" by auto
  moreover assume "fst (derive H seed index w) = Inl e"
  ultimately show ?thesis using derive_out_of_range [of index H seed w] by simp
qed

lemma encode_utf8_error: "encode_utf8 s = Inl e \<Longrightarrow> \<exists>c. e = UnicodeEncodeError c"
proof (induction s)
  case Nil
  then show ?case by simp
next
  case (Cons c cs)
  then show ?case
    by (auto simp: utf8_char_def split: sum.splits if_splits)
qed

lemma fst_to_seed_world:
  "fst (to_seed N P H mnemonic passphrase index w1) = fst (to_seed N P H mnemonic passphrase index w2)"
  using fst_derive_world
  by (auto simp: to_seed_def pbkdf2_hmac_def Let_def split: sum.splits)

lemma to_seed_keeps_entropy:
  "entropy (snd (to_seed N P H mnemonic passphrase index w)) = entropy w \<and>
   drawn (snd (to_seed N P H mnemonic passphrase index w)) = drawn w"
  using derive_keeps_entropy
  by (auto simp: to_seed_def pbkdf2_hmac_def Let_def split: sum.splits)

lemma to_seed_error:
  "fst (to_seed N P H mnemonic passphrase index w) = Inl e \<Longrightarrow>
     e = StructError \<or> (\<exists>c. e = UnicodeEncodeError c)"
  by (auto simp: to_seed_def pbkdf2_hmac_def Let_def split: sum.splits
        dest: encode_utf8_error derive_error_is_struct)

lemma sample_encodings:
  "encode_utf8 (sample_normalize [97, 233]) = Inr [97, 195, 169]"
  "encode_utf8 (ustr_of ''mnemonic'' @ sample_normalize [8364]) =
     Inr [109, 110, 101, 109, 111, 110, 105, 99, 226, 130, 172]"
  by (simp_all add: sample_normalize_def utf8_char_def ustr_of_def)

section \<open>The event stream\<close>

lemma stream_Nil: "stream J [] = ([], None)"
  by (simp add: stream.simps)

lemma stream_keep_alive: "keep_alive msg \<Longrightarrow> stream J (msg # rest) = stream J rest"
  by (subst stream.simps, subst (2) stream.simps) (auto simp: keep_alive_def Let_def)

lemma stream_data:
  "\<not> keep_alive msg \<Longrightarrow>
     stream J (msg # rest) =
       (case J (event_data msg) of
          Inl e \<Rightarrow> ([], if e = StopIteration then None else Some e)
        | Inr v \<Rightarrow> (v # fst (stream J rest), snd (stream J rest)))"
  by (subst stream.simps) (auto simp: keep_alive_def Let_def split: sum.splits prod.splits)

lemma stream_filter: "stream J (filter (\<lambda>msg. \<not> keep_alive msg) evs) = stream J evs"
proof (induction evs)
  case Nil
  then show ?case by simp
next
  case (Cons msg rest)
  then show ?case
    by (cases "keep_alive msg") (simp_all add: stream_keep_alive stream_data split: sum.splits)
qed

lemma stream_yields:
  "map Inr (fst (stream J evs)) =
     takeWhile (\<lambda>r. \<not> isl r)
       (map (\<lambda>msg. J (event_data msg)) (filter (\<lambda>msg. \<not> keep_alive msg) evs))"
proof (induction evs)
  case Nil
  then show ?case by (simp add: stream_Nil)
next
  case (Cons msg rest)
  show ?case
  proof (cases "keep_alive msg")
    case True
    with Cons show ?thesis by (simp add: stream_keep_alive)
  next
    case False
    with Cons show ?thesis
      by (cases "J (event_data msg)") (simp_all add: stream_data)
  qed
qed

lemma strength_cases:
  "strength \<in> {128, 160, 192, 224, 256 :: int} \<Longrightarrow> 0 \<le> strength div 8 \<and> strength div 8 \<in> {16, 20, 24, 28, 32}"
  by auto

section \<open>Claims about \<open>derive\<close>\<close>

text \<open>
  C1. For every 64-byte seed and every account index from 0 up to, but not including,
  \<open>2^31\<close>, \<open>derive\<close> returns the result of the hardened-only reference derivation:
  the master step under the key \<open>ed25519 seed\<close>, then the three child steps for the
  segments 44, 148 and the index, each over the 37 bytes
  \<open>0x00 || il || be32(2^31 + segment)\<close> under the key \<open>ir\<close>; the value returned is
  the last \<open>il\<close> and has exactly 32 bytes (HMAC-SHA512 digests having 64).
\<close>

theorem derive_slip10:
  assumes "0 \<le> index" and "index < 2 ^ 31" and "length seed = 64"
    and "\<forall>k m. length (H k m) = 64"
  shows "fst (derive H seed index w) = Inr (slip10_reference H seed index) \<and>
         length (slip10_reference H seed index) = 32"
proof -
  have "- (2 ^ 31) \<le> index" using assms(1) by simp
  then have "derive H seed index w =
      (Inr (slip10_reference H seed index),
       w\<lparr>calls := calls w @ [master_call seed, child_call (slip10_master H seed) 44,
            child_call (hardened_child H (slip10_master H seed) 44) 148,
            child_call (hardened_child H (hardened_child H (slip10_master H seed) 44) 148)
              index]\<rparr>)"
    using assms(2) by (rule derive_in_range)
  then show ?thesis using length_slip10_reference [OF assms(4)] by simp
qed

theorem derive_slip10_witness:
  "fst (derive sample_prf sample_seed 7 sample_world) =
     Inr (slip10_reference sample_prf sample_seed 7) \<and>
   length (slip10_reference sample_prf sample_seed 7) = 32 \<and>
   length sample_seed = 64 \<and> (\<forall>k m. length (sample_prf k m) = 64)"
proof -
  have len: "\<forall>k m. length (sample_prf k m) = 64" by (simp add: sample_prf_length)
  have s: "length sample_seed = 64" by (simp add: sample_seed_def)
  show ?thesis
    using derive_slip10 [of 7 sample_seed sample_prf sample_world, OF _ _ s len] len s by simp
qed

text \<open>
  C3, as the code has it. \<open>derive\<close> has no check of its own on the index. For a
  non-negative index it fails exactly when the index is \<open>2^31\<close> or more, and the failure
  is the \<open>struct.error\<close> of packing the third segment into four bytes: by then the master
  HMAC and the child HMACs of the segments 44 and 148 have been computed, and no more.
  For an index up to \<open>2^31 - 1\<close> it succeeds and returns 32 bytes.
\<close>

theorem derive_rejects_after_two_children:
  assumes "0 \<le> index" and "length seed = 64" and "\<forall>k m. length (H k m) = 64"
  shows "((\<exists>e. fst (derive H seed index w) = Inl e) = (2 ^ 31 \<le> index)) \<and>
         (2 ^ 31 \<le> index \<longrightarrow>
            derive H seed index w =
              (Inl StructError,
               w\<lparr>calls := calls w @ [master_call seed, child_call (slip10_master H seed) 44,
                    child_call (hardened_child H (slip10_master H seed) 44) 148]\<rparr>)) \<and>
         (index \<le> 2 ^ 31 - 1 \<longrightarrow>
            (\<exists>key. fst (derive H seed index w) = Inr key \<and> length key = 32))"
proof (cases "2 ^ 31 \<le> index")
  case True
  then have "index < - (2 ^ 31) \<or> 2 ^ 31 \<le> index" by simp
  from derive_out_of_range [OF this, of H seed w] True show ?thesis by simp
next
  case False
  then have "- (2 ^ 31) \<le> index" "index < 2 ^ 31" using assms(1) by simp_all
  from derive_in_range [OF this, of H seed w] length_slip10_reference [OF assms(3), of seed index]
    False show ?thesis by simp
qed

theorem derive_rejects_after_two_children_witness:
  "derive sample_prf sample_seed (2 ^ 31) sample_world =
     (Inl StructError,
      sample_world\<lparr>calls := calls sample_world @
         [master_call sample_seed, child_call (slip10_master sample_prf sample_seed) 44,
          child_call (hardened_child sample_prf (slip10_master sample_prf sample_seed) 44) 148]\<rparr>) \<and>
   (\<exists>key. fst (derive sample_prf sample_seed (2 ^ 31 - 1) sample_world) = Inr key \<and> length key = 32) \<and>
   length sample_seed = 64 \<and> (\<forall>k m. length (sample_prf k m) = 64)"
proof -
  have len: "\<forall>k m. length (sample_prf k m) = 64" by (simp add: sample_prf_length)
  have s: "length sample_seed = 64" by (simp add: sample_seed_def)
  show ?thesis
    using derive_rejects_after_two_children [of "2 ^ 31" sample_seed sample_prf sample_world, OF _ s len]
      derive_rejects_after_two_children [of "2 ^ 31 - 1" sample_seed sample_prf sample_world, OF _ s len]
      len s by simp
qed

text \<open>
  C3, as stated, requires the failure to be detected before any derivation computation
  begins. At the index \<open>2^31\<close>, starting from a world with no recorded call, the failure
  comes after three HMAC computations.
\<close>

theorem derive_fails_mid_derivation_counterexample:
  "fst (derive sample_prf sample_seed (2 ^ 31) sample_world) = Inl StructError \<and>
   calls sample_world = [] \<and>
   length (calls (snd (derive sample_prf sample_seed (2 ^ 31) sample_world))) = 3"
proof -
  have "(2::int) ^ 31 < - (2 ^ 31) \<or> (2::int) ^ 31 \<le> 2 ^ 31" by simp
  from derive_out_of_range [OF this, of sample_prf sample_seed sample_world]
  show ?thesis by (simp add: sample_world_def)
qed

text \<open>
  C8. \<open>derive\<close> performs no range check: for every index from \<open>-2^31\<close> up to, but not
  including, 0 it raises nothing and returns a key of 32 bytes. The negative index is
  written into the path text with its sign, and the last child step packs \<open>2^31 + index\<close>,
  a value below \<open>2^31\<close> and so outside the hardened range.
\<close>

theorem derive_negative_index:
  assumes "- (2 ^ 31) \<le> index" and "index < 0" and "\<forall>k m. length (H k m) = 64"
  shows "fst (derive H seed index w) = Inr (slip10_reference H seed index) \<and>
         length (slip10_reference H seed index) = 32 \<and>
         format_d STELLAR_ACCOUNT_PATH_FORMAT index =
           ''m/44'' @ [apostrophe] @ ''/148'' @ [apostrophe] @ ''/-'' @ dec_digits (nat (- index))
             @ [apostrophe] \<and>
         last (calls (snd (derive H seed index w))) =
           HmacSha512 (snd (hardened_child H (hardened_child H (slip10_master H seed) 44) 148))
             ([0] @ fst (hardened_child H (hardened_child H (slip10_master H seed) 44) 148)
                @ be32 (word_of_int (2 ^ 31 + index))) \<and>
         uint (word_of_int (2 ^ 31 + index) :: 32 word) = 2 ^ 31 + index \<and>
         2 ^ 31 + index < 2 ^ 31"
proof -
  have "index < 2 ^ 31" using assms(2) by simp
  note d = derive_in_range [OF assms(1) this, of H seed w]
  have u: "uint (word_of_int (2 ^ 31 + index) :: 32 word) = 2 ^ 31 + index"
    using uint_word_of_int_32 [of "2 ^ 31 + index"] assms(1,2) by simp
  have f: "format_d STELLAR_ACCOUNT_PATH_FORMAT index =
           ''m/44'' @ [apostrophe] @ ''/148'' @ [apostrophe] @ ''/-'' @ dec_digits (nat (- index))
             @ [apostrophe]"
    using assms(2) by (simp add: STELLAR_ACCOUNT_PATH_FORMAT_def apostrophe_def str_of_int_def)
  show ?thesis
    using d u f length_slip10_reference [OF assms(3), of seed index] assms(2)
    by (simp add: child_call_def)
qed

theorem derive_negative_index_witness:
  "fst (derive sample_prf sample_seed (- 5) sample_world) =
     Inr (slip10_reference sample_prf sample_seed (- 5)) \<and>
   length (slip10_reference sample_prf sample_seed (- 5)) = 32 \<and>
   format_d STELLAR_ACCOUNT_PATH_FORMAT (- 5) = ''m/44'' @ [apostrophe] @ ''/148'' @ [apostrophe] @ ''/-5'' @ [apostrophe] \<and>
   uint (word_of_int (2 ^ 31 + (- 5)) :: 32 word) = 2147483643 \<and>
   (\<forall>k m. length (sample_prf k m) = 64)"
proof -
  have len: "\<forall>k m. length (sample_prf k m) = 64" by (simp add: sample_prf_length)
  show ?thesis
    using derive_negative_index [of "- 5" sample_prf sample_seed sample_world, OF _ _ len] len
    by (simp add: dec_digits.simps digit_char_def)
qed

section \<open>Claims about \<open>to_seed\<close>\<close>

text \<open>
  C2. \<open>to_seed\<close> normalizes the mnemonic and the passphrase, takes the text
  \<open>mnemonic\<close> followed by the normalized passphrase as salt, and runs PBKDF2 with
  HMAC-SHA512 over the UTF-8 bytes of the normalized mnemonic as password, with 2048
  iterations and an output of 64 bytes; exactly these 64 bytes go to \<open>derive\<close> with the
  given index, whose outcome is the outcome of \<open>to_seed\<close>. The UTF-8 bytes of the two
  texts are named \<open>password\<close> and \<open>salt\<close>.
\<close>

theorem to_seed_stretch_then_derive:
  assumes "encode_utf8 (N mnemonic) = Inr password"
    and "encode_utf8 (ustr_of ''mnemonic'' @ N passphrase) = Inr salt"
    and "\<forall>p s r. length (P p s r) = 64"
  shows "to_seed N P H mnemonic passphrase index w =
           derive H (P password salt 2048) index
             (w\<lparr>calls := calls w @ [Pbkdf2HmacSha512 password salt 2048]\<rparr>) \<and>
         length (P password salt 2048) = 64"
  using to_seed_encoded [where N = N and mnemonic = mnemonic and passphrase = passphrase,
      OF assms(1,2), of P H index w] assms(3)
  by simp

theorem to_seed_stretch_then_derive_witness:
  "to_seed sample_normalize sample_kdf sample_prf [97, 233] [8364] 3 sample_world =
     derive sample_prf
       (sample_kdf [97, 195, 169] [109, 110, 101, 109, 111, 110, 105, 99, 226, 130, 172] 2048) 3
       (sample_world\<lparr>calls := calls sample_world @
          [Pbkdf2HmacSha512 [97, 195, 169]
             [109, 110, 101, 109, 111, 110, 105, 99, 226, 130, 172] 2048]\<rparr>) \<and>
   length (sample_kdf [97, 195, 169] [109, 110, 101, 109, 111, 110, 105, 99, 226, 130, 172] 2048)
     = 64 \<and>
   (\<forall>p s r. length (sample_kdf p s r) = 64)"
proof -
  have len: "\<forall>p s r. length (sample_kdf p s r) = 64" by (simp add: sample_kdf_length)
  show ?thesis
    using to_seed_stretch_then_derive [where N = sample_normalize and mnemonic = "[97, 233]"
        and passphrase = "[8364]", OF sample_encodings len, of sample_prf 3 sample_world] len
    by simp
qed

text \<open>
  C7. \<open>to_seed\<close> is deterministic: its result does not depend on the world it runs in
  (the calls made before, the entropy tape, the bytes drawn from it), and it leaves the
  entropy untouched. For a valid triple, that is texts that have UTF-8 bytes and an index
  from 0 up to \<open>2^31 - 1\<close>, the result is a key of 32 bytes.
\<close>

theorem to_seed_deterministic:
  assumes "encode_utf8 (N mnemonic) = Inr password"
    and "encode_utf8 (ustr_of ''mnemonic'' @ N passphrase) = Inr salt"
    and "0 \<le> index" and "index < 2 ^ 31"
    and "\<forall>k m. length (H k m) = 64"
  shows "fst (to_seed N P H mnemonic passphrase index w1) =
           fst (to_seed N P H mnemonic passphrase index w2) \<and>
         (\<exists>key. fst (to_seed N P H mnemonic passphrase index w1) = Inr key \<and> length key = 32) \<and>
         entropy (snd (to_seed N P H mnemonic passphrase index w1)) = entropy w1 \<and>
         drawn (snd (to_seed N P H mnemonic passphrase index w1)) = drawn w1"
proof -
  have r: "- (2 ^ 31) \<le> index" using assms(3) by simp
  have "\<exists>key. fst (to_seed N P H mnemonic passphrase index w1) = Inr key \<and> length key = 32"
    using to_seed_encoded [where N = N and mnemonic = mnemonic and passphrase = passphrase,
        OF assms(1,2), of P H index w1]
      derive_in_range [OF r assms(4), of H "take 64 (P password salt 2048)"]
      length_slip10_reference [OF assms(5)]
    by simp
  then show ?thesis
    using fst_to_seed_world [of N P H mnemonic passphrase index w1 w2]
      to_seed_keeps_entropy [of N P H mnemonic passphrase index w1]
    by simp
qed

theorem to_seed_deterministic_witness:
  "fst (to_seed sample_normalize sample_kdf sample_prf [97, 233] [8364] 3 sample_world) =
     fst (to_seed sample_normalize sample_kdf sample_prf [97, 233] [8364] 3 sample_world2) \<and>
   (\<exists>key. fst (to_seed sample_normalize sample_kdf sample_prf [97, 233] [8364] 3 sample_world)
            = Inr key \<and> length key = 32) \<and>
   entropy sample_world \<noteq> entropy sample_world2 \<and>
   (\<forall>k m. length (sample_prf k m) = 64)"
proof -
  have len: "\<forall>k m. length (sample_prf k m) = 64" by (simp add: sample_prf_length)
  have "entropy sample_world 0 \<noteq> entropy sample_world2 0"
    by (simp add: sample_world_def sample_world2_def)
  then have ne: "entropy sample_world \<noteq> entropy sample_world2" by metis
  have i: "(0::int) \<le> 3" "(3::int) < 2 ^ 31" by simp_all
  show ?thesis
    using to_seed_deterministic [where N = sample_normalize and mnemonic = "[97, 233]"
        and passphrase = "[8364]", OF sample_encodings i len,
        of sample_kdf sample_world sample_world2] len ne
    by blast
qed

section \<open>Claims about \<open>generate\<close> and the constructor\<close>

text \<open>
  C4. \<open>generate\<close> fails exactly when the strength is not one of 128, 160, 192, 224 and
  256, and then with the SDK's \<open>ValueError\<close> naming the strength, before any entropy is
  requested. For each of the five values it succeeds: it requests exactly \<open>strength / 8\<close>
  bytes from \<open>os.urandom\<close>, once, and hands these bytes to the phrase encoder.
\<close>

theorem generate_strength_check:
  "((\<exists>e. fst (generate T self strength w) = Inl e) = (strength \<notin> {128, 160, 192, 224, 256})) \<and>
   (strength \<notin> {128, 160, 192, 224, 256} \<longrightarrow>
      generate T self strength w = (Inl (ValueError (format_d strength_message strength)), w)) \<and>
   (strength \<in> {128, 160, 192, 224, 256} \<longrightarrow>
      fst (generate T self strength w) =
        Inr (T self (map (entropy w) [drawn w ..< drawn w + nat (strength div 8)])) \<and>
      length (map (entropy w) [drawn w ..< drawn w + nat (strength div 8)]) = nat (strength div 8) \<and>
      calls (snd (generate T self strength w)) = calls w @ [Urandom (strength div 8)] \<and>
      drawn (snd (generate T self strength w)) = drawn w + nat (strength div 8))"
proof (cases "strength \<in> {128, 160, 192, 224, 256}")
  case True
  then have "0 \<le> strength div 8" using strength_cases by blast
  with True show ?thesis by (simp add: generate_def os_urandom_def)
next
  case False
  then show ?thesis by (simp add: generate_def)
qed

theorem generate_strength_check_witness:
  "fst (generate sample_phrase \<lparr>wordlist_language = ''english''\<rparr> 128 sample_world) =
     Inr [0, 1, 2, 3, 4, 5, 6, 7, 8, 9, 10, 11, 12, 13, 14, 15] \<and>
   calls (snd (generate sample_phrase \<lparr>wordlist_language = ''english''\<rparr> 128 sample_world)) =
     [Urandom 16] \<and>
   generate sample_phrase \<lparr>wordlist_language = ''english''\<rparr> 100 sample_world =
     (Inl (ValueError
       ''Strength should be one of the following [128, 160, 192, 224, 256], but it is not (100).''),
      sample_world)"
  using generate_strength_check [of sample_phrase "\<lparr>wordlist_language = ''english''\<rparr>" 128 sample_world]
    generate_strength_check [of sample_phrase "\<lparr>wordlist_language = ''english''\<rparr>" 100 sample_world]
  by (simp add: sample_phrase_def sample_world_def strength_message_def str_of_int_def
        dec_digits.simps digit_char_def upt_rec)

text \<open>
  C5. The constructor fails exactly when its argument is neither a member of \<open>Language\<close>
  nor the name of one, and then with the SDK's \<open>ValueError\<close>; the failure happens in the
  constructor, which makes no call to any collaborator (no derivation is attempted).
\<close>

theorem init_language_check:
  "((\<exists>e. fst (init arg w) = Inl e) = (\<not> supported_language arg)) \<and>
   (\<not> supported_language arg \<longrightarrow>
      init arg w = (Inl (ValueError ''This language is not supported.''), w)) \<and>
   (supported_language arg \<longrightarrow> (\<exists>self. fst (init arg w) = Inr self)) \<and>
   snd (init arg w) = w"
  by (cases arg)
    (auto simp: init_def super_init_def supported_language_def Language_members_def)

theorem init_language_check_witness:
  "init (Text ''klingon'') sample_world =
     (Inl (ValueError ''This language is not supported.''), sample_world) \<and>
   \<not> supported_language (Text ''klingon'') \<and>
   (\<exists>self. fst (init (Text ''french'') sample_world) = Inr self) \<and>
   (\<exists>self. fst (init (Member SPANISH) sample_world) = Inr self) \<and>
   supported_language (Text ''french'') \<and> supported_language (Member SPANISH)"
proof -
  have a: "\<not> supported_language (Text ''klingon'')"
    and b: "supported_language (Text ''french'')" and c: "supported_language (Member SPANISH)"
    by (simp_all add: supported_language_def)
  show ?thesis
    using init_language_check [of "Text ''klingon''" sample_world]
      init_language_check [of "Text ''french''" sample_world]
      init_language_check [of "Member SPANISH" sample_world] a b c
    by blast
qed

section \<open>Claims about the event stream\<close>

text \<open>
  C10. The stream never yields a keep-alive message: whatever events the client delivers,
  the values yielded are the JSON-decoded data of the events whose data is neither
  \<open>"hello"\<close> nor \<open>"byebye"\<close>, in order, up to the first one that fails to decode;
  the two keep-alive messages are skipped and the iteration goes on with the next event.
\<close>

theorem stream_skips_keep_alives:
  "map Inr (fst (stream J evs)) =
     takeWhile (\<lambda>r. \<not> isl r)
       (map (\<lambda>msg. J (event_data msg))
          (filter (\<lambda>msg. event_data msg \<noteq> hello_sentinel \<and> event_data msg \<noteq> byebye_sentinel)
             evs)) \<and>
   stream J evs =
     stream J
       (filter (\<lambda>msg. event_data msg \<noteq> hello_sentinel \<and> event_data msg \<noteq> byebye_sentinel) evs)"
proof -
  have "(\<lambda>msg. event_data msg \<noteq> hello_sentinel \<and> event_data msg \<noteq> byebye_sentinel) =
        (\<lambda>msg. \<not> keep_alive msg)"
    by (simp add: keep_alive_def)
  then show ?thesis
    using stream_yields [of J evs] stream_filter [of J evs] by simp
qed

theorem stream_skips_keep_alives_witness:
  "map Inr (fst (stream sample_json
     [\<lparr>event_data = hello_sentinel\<rparr>, \<lparr>event_data = ''{}''\<rparr>, \<lparr>event_data = byebye_sentinel\<rparr>,
      \<lparr>event_data = ''[1]''\<rparr>])) = [Inr ''{}'', Inr ''[1]'' :: error + string] \<and>
   stream sample_json
     [\<lparr>event_data = hello_sentinel\<rparr>, \<lparr>event_data = ''{}''\<rparr>, \<lparr>event_data = byebye_sentinel\<rparr>,
      \<lparr>event_data = ''[1]''\<rparr>] =
   stream sample_json [\<lparr>event_data = ''{}''\<rparr>, \<lparr>event_data = ''[1]''\<rparr>]"
proof -
  let ?E = "[\<lparr>event_data = hello_sentinel\<rparr>, \<lparr>event_data = ''{}''\<rparr>,
             \<lparr>event_data = byebye_sentinel\<rparr>, \<lparr>event_data = ''[1]''\<rparr>]"
  note t = stream_skips_keep_alives [of sample_json ?E]
  have a: "map Inr (fst (stream sample_json ?E)) = [Inr ''{}'', Inr ''[1]'' :: error + string]"
    using t [THEN conjunct1]
    by (simp add: hello_sentinel_def byebye_sentinel_def sample_json_def)
  have b: "stream sample_json ?E =
           stream sample_json [\<lparr>event_data = ''{}''\<rparr>, \<lparr>event_data = ''[1]''\<rparr>]"
    using t [THEN conjunct2]
    by (simp add: hello_sentinel_def byebye_sentinel_def)
  from a b show ?thesis ..
qed

end
